theory Spec2Isabelle
  imports Main "HOL-Library.Word"
begin

section \<open>The world a librbd call runs in\<close>

text \<open>
  \<^verbatim>\<open>script/librbd.cc\<close> exports the C functions of librbd as a "NULL implementation":
  every body is a \<^verbatim>\<open>printf\<close> of one trace line followed by \<^verbatim>\<open>return 0\<close>
  (\<^verbatim>\<open>rbd_aio_release\<close> is empty). A C function acts on the process it runs in, so the
  model passes that process state explicitly: the text written to standard output, the
  caller's memory (where buffers and out-parameters live), the objects the library has
  allocated, the backing store behind the library, and the user callbacks invoked so far.
  Pointers and the opaque handles \<^verbatim>\<open>rbd_image_t\<close>, \<^verbatim>\<open>rbd_completion_t\<close>,
  \<^verbatim>\<open>rados_ioctx_t\<close> (all \<^verbatim>\<open>void *\<close>) are 64-bit words; \<^verbatim>\<open>int\<close> is a 32-bit word read
  with \<open>sint\<close>.
\<close>

type_synonym addr = "64 word"
type_synonym byte = "8 word"
type_synonym c_int = "32 word"
type_synonym uint64_t = "64 word"
type_synonym size_t = "64 word"
type_synonym ssize_t = "64 word"

type_synonym rados_ioctx_t = addr
type_synonym rbd_image_t = addr
type_synonym rbd_completion_t = addr
type_synonym rbd_callback_t = addr

text \<open>\<^verbatim>\<open>struct iovec { void *iov_base; size_t iov_len; }\<close>\<close>

record iovec =
  iov_base :: addr
  iov_len :: size_t

text \<open>
  The backing store: the bytes of the image it holds and the number of requests it has
  been sent.
\<close>

record backend =
  blocks :: "uint64_t \<Rightarrow> byte"
  request_counter :: nat

record world =
  out :: string
  mem :: "addr \<rightharpoonup> byte"
  heap :: "addr list"
  store :: backend
  callbacks :: "(rbd_callback_t \<times> addr) list"

text \<open>
  Reading the caller's memory: \<open>n\<close> bytes from an address (\<open>None\<close> for a byte that is
  not mapped), the buffers an iovec array points to, and a little-endian 64-bit value
  such as a \<^verbatim>\<open>uint64_t\<close> or a handle behind an out-parameter.
\<close>

definition load_bytes :: "(addr \<rightharpoonup> byte) \<Rightarrow> addr \<Rightarrow> nat \<Rightarrow> byte option list" where
  "load_bytes m p n = map (\<lambda>i. m (p + of_nat i)) [0..<n]"

definition iov_bytes :: "(addr \<rightharpoonup> byte) \<Rightarrow> iovec list \<Rightarrow> byte option list list" where
  "iov_bytes m iov = map (\<lambda>v. load_bytes m (iov_base v) (unat (iov_len v))) iov"

definition load_u64 :: "(addr \<rightharpoonup> byte) \<Rightarrow> addr \<Rightarrow> uint64_t option" where
  "load_u64 m p = map_option (\<lambda>bs. word_rcat (rev bs)) (those (load_bytes m p 8))"

section \<open>printf\<close>

text \<open>
  \<^verbatim>\<open>printf(fmt, __func__)\<close> with a format whose only conversion is \<^verbatim>\<open>%s\<close>: the format
  is copied to standard output with each \<^verbatim>\<open>%s\<close> replaced by the argument.
\<close>

fun subst_s :: "string \<Rightarrow> string \<Rightarrow> string" where
  "subst_s [] a = []"
| "subst_s [c] a = [c]"
| "subst_s (c # d # fmt) a =
     (if c = CHR ''%'' \<and> d = CHR ''s'' then a @ subst_s fmt a
      else c # subst_s (d # fmt) a)"

definition printf :: "string \<Rightarrow> string \<Rightarrow> world \<Rightarrow> world" where
  "printf fmt a w = w\<lparr>out := out w @ subst_s fmt a\<rparr>"

section \<open>The exported functions of script/librbd.cc\<close>

definition rbd_open :: "rados_ioctx_t \<Rightarrow> addr \<Rightarrow> addr \<Rightarrow> addr \<Rightarrow> world \<Rightarrow> c_int \<times> world" where
  "rbd_open p name img snap_name w =
     (0, printf (''librbd NULL implementation: in %s  '' @ [CHR 0x0A]) ''rbd_open'' w)"

definition rbd_close :: "rbd_image_t \<Rightarrow> world \<Rightarrow> c_int \<times> world" where
  "rbd_close img w =
     (0, printf (''librbd NULL implementation: in %s'' @ [CHR 0x0A]) ''rbd_close'' w)"

definition rbd_stat :: "rbd_image_t \<Rightarrow> addr \<Rightarrow> size_t \<Rightarrow> world \<Rightarrow> c_int \<times> world" where
  "rbd_stat img info infosize w =
     (0, printf (''librbd NULL implementation: in %s'' @ [CHR 0x0A]) ''rbd_stat'' w)"

definition rbd_resize :: "rbd_image_t \<Rightarrow> uint64_t \<Rightarrow> world \<Rightarrow> c_int \<times> world" where
  "rbd_resize img sz w =
     (0, printf (''librbd NULL implementation: in %s'' @ [CHR 0x0A]) ''rbd_resize'' w)"

definition rbd_get_size :: "rbd_image_t \<Rightarrow> addr \<Rightarrow> world \<Rightarrow> c_int \<times> world" where
  "rbd_get_size img sz w =
     (0, printf (''librbd NULL implementation: in %s'' @ [CHR 0x0A]) ''rbd_get_size'' w)"

definition rbd_create :: "rados_ioctx_t \<Rightarrow> addr \<Rightarrow> uint64_t \<Rightarrow> addr \<Rightarrow> world \<Rightarrow> c_int \<times> world" where
  "rbd_create p name sz ord_p w =
     (0, printf (''librbd NULL implementation: in %s'' @ [CHR 0x0A]) ''rbd_create'' w)"

definition rbd_remove :: "rados_ioctx_t \<Rightarrow> addr \<Rightarrow> world \<Rightarrow> c_int \<times> world" where
  "rbd_remove p name w =
     (0, printf (''librbd NULL implementation: in %s'' @ [CHR 0x0A]) ''rbd_remove'' w)"

definition rbd_aio_release :: "rbd_completion_t \<Rightarrow> world \<Rightarrow> world" where
  "rbd_aio_release c w = w"

definition rbd_aio_create_completion :: "addr \<Rightarrow> rbd_callback_t \<Rightarrow> addr \<Rightarrow> world \<Rightarrow> c_int \<times> world" where
  "rbd_aio_create_completion cb_arg complete_cb c w =
     (0, printf (''librbd NULL implementation: in %s'' @ [CHR 0x0A])
           ''rbd_aio_create_completion'' w)"

definition rbd_aio_readv ::
  "rbd_image_t \<Rightarrow> iovec list \<Rightarrow> c_int \<Rightarrow> uint64_t \<Rightarrow> rbd_completion_t \<Rightarrow> world \<Rightarrow> c_int \<times> world" where
  "rbd_aio_readv img iov iovcnt off c w =
     (0, printf (''librbd NULL implementation: in %s'' @ [CHR 0x0A]) ''rbd_aio_readv'' w)"

definition rbd_aio_writev ::
  "rbd_image_t \<Rightarrow> iovec list \<Rightarrow> c_int \<Rightarrow> uint64_t \<Rightarrow> rbd_completion_t \<Rightarrow> world \<Rightarrow> c_int \<times> world" where
  "rbd_aio_writev img iov iovcnt off c w =
     (0, printf (''librbd NULL implementation: in %s'' @ [CHR 0x0A]) ''rbd_aio_writev'' w)"

definition rbd_aio_discard ::
  "rbd_image_t \<Rightarrow> uint64_t \<Rightarrow> uint64_t \<Rightarrow> rbd_completion_t \<Rightarrow> world \<Rightarrow> c_int \<times> world" where
  "rbd_aio_discard img off len c w =
     (0, printf (''librbd NULL implementation: in %s'' @ [CHR 0x0A]) ''rbd_aio_discard'' w)"

definition rbd_aio_flush :: "rbd_image_t \<Rightarrow> rbd_completion_t \<Rightarrow> world \<Rightarrow> c_int \<times> world" where
  "rbd_aio_flush img c w =
     (0, printf (''librbd NULL implementation: in %s'' @ [CHR 0x0A]) ''rbd_aio_flush'' w)"

definition rbd_aio_write_zeroes ::
  "rbd_image_t \<Rightarrow> uint64_t \<Rightarrow> size_t \<Rightarrow> rbd_completion_t \<Rightarrow> c_int \<Rightarrow> c_int \<Rightarrow> world
     \<Rightarrow> c_int \<times> world" where
  "rbd_aio_write_zeroes img off len c zero_flags op_flags w =
     (0, printf (''librbd NULL implementation: in %s'' @ [CHR 0x0A]) ''rbd_aio_write_zeroes'' w)"

definition rbd_aio_get_return_value :: "rbd_completion_t \<Rightarrow> world \<Rightarrow> ssize_t \<times> world" where
  "rbd_aio_get_return_value c w =
     (0, printf (''librbd NULL implementation: in %s'' @ [CHR 0x0A])
           ''rbd_aio_get_return_value'' w)"

definition rbd_invalidate_cache :: "rbd_image_t \<Rightarrow> world \<Rightarrow> c_int \<times> world" where
  "rbd_invalidate_cache img w =
     (0, printf (''librbd NULL implementation: in %s'' @ [CHR 0x0A]) ''rbd_invalidate_cache'' w)"

definition rbd_snap_create :: "rbd_image_t \<Rightarrow> addr \<Rightarrow> world \<Rightarrow> c_int \<times> world" where
  "rbd_snap_create img snap_name w =
     (0, printf (''librbd NULL implementation: in %s'' @ [CHR 0x0A]) ''rbd_snap_create'' w)"

definition rbd_snap_remove :: "rbd_image_t \<Rightarrow> addr \<Rightarrow> world \<Rightarrow> c_int \<times> world" where
  "rbd_snap_remove img snap_name w =
     (0, printf (''librbd NULL implementation: in %s'' @ [CHR 0x0A]) ''rbd_snap_remove'' w)"

definition rbd_snap_rollback :: "rbd_image_t \<Rightarrow> addr \<Rightarrow> world \<Rightarrow> c_int \<times> world" where
  "rbd_snap_rollback img snap_name w =
     (0, printf (''librbd NULL implementation: in %s'' @ [CHR 0x0A]) ''rbd_snap_rollback'' w)"

definition rbd_snap_list :: "rbd_image_t \<Rightarrow> addr \<Rightarrow> addr \<Rightarrow> world \<Rightarrow> c_int \<times> world" where
  "rbd_snap_list img snaps max_snaps w =
     (0, printf (''librbd NULL implementation: in %s'' @ [CHR 0x0A]) ''rbd_snap_list'' w)"

definition rbd_snap_list_end :: "addr \<Rightarrow> world \<Rightarrow> world" where
  "rbd_snap_list_end snaps w =
     printf (''librbd NULL implementation: in %s'' @ [CHR 0x0A]) ''rbd_snap_list_end'' w"

section \<open>A caller: sequences of calls\<close>

text \<open>
  A caller issues the exported functions one after the other. A call names the function
  and carries its arguments; its result is the \<^verbatim>\<open>int\<close> or \<^verbatim>\<open>ssize_t\<close> returned, or
  nothing for the two \<^verbatim>\<open>void\<close> functions.
\<close>

datatype call =
    Rbd_open rados_ioctx_t addr addr addr
  | Rbd_close rbd_image_t
  | Rbd_stat rbd_image_t addr size_t
  | Rbd_resize rbd_image_t uint64_t
  | Rbd_get_size rbd_image_t addr
  | Rbd_create rados_ioctx_t addr uint64_t addr
  | Rbd_remove rados_ioctx_t addr
  | Rbd_aio_release rbd_completion_t
  | Rbd_aio_create_completion addr rbd_callback_t addr
  | Rbd_aio_readv rbd_image_t "iovec list" c_int uint64_t rbd_completion_t
  | Rbd_aio_writev rbd_image_t "iovec list" c_int uint64_t rbd_completion_t
  | Rbd_aio_discard rbd_image_t uint64_t uint64_t rbd_completion_t
  | Rbd_aio_flush rbd_image_t rbd_completion_t
  | Rbd_aio_write_zeroes rbd_image_t uint64_t size_t rbd_completion_t c_int c_int
  | Rbd_aio_get_return_value rbd_completion_t
  | Rbd_invalidate_cache rbd_image_t
  | Rbd_snap_create rbd_image_t addr
  | Rbd_snap_remove rbd_image_t addr
  | Rbd_snap_rollback rbd_image_t addr
  | Rbd_snap_list rbd_image_t addr addr
  | Rbd_snap_list_end addr

datatype retval = RInt c_int | RSsize ssize_t | RVoid

definition ret_int :: "c_int \<times> world \<Rightarrow> retval \<times> world" where
  "ret_int rw = (RInt (fst rw), snd rw)"

definition ret_ssize :: "ssize_t \<times> world \<Rightarrow> retval \<times> world" where
  "ret_ssize rw = (RSsize (fst rw), snd rw)"

fun exec :: "call \<Rightarrow> world \<Rightarrow> retval \<times> world" where
  "exec (Rbd_open p name img snap_name) w = ret_int (rbd_open p name img snap_name w)"
| "exec (Rbd_close img) w = ret_int (rbd_close img w)"
| "exec (Rbd_stat img info infosize) w = ret_int (rbd_stat img info infosize w)"
| "exec (Rbd_resize img sz) w = ret_int (rbd_resize img sz w)"
| "exec (Rbd_get_size img sz) w = ret_int (rbd_get_size img sz w)"
| "exec (Rbd_create p name sz ord_p) w = ret_int (rbd_create p name sz ord_p w)"
| "exec (Rbd_remove p name) w = ret_int (rbd_remove p name w)"
| "exec (Rbd_aio_release c) w = (RVoid, rbd_aio_release c w)"
| "exec (Rbd_aio_create_completion cb_arg complete_cb c) w =
     ret_int (rbd_aio_create_completion cb_arg complete_cb c w)"
| "exec (Rbd_aio_readv img iov iovcnt off c) w = ret_int (rbd_aio_readv img iov iovcnt off c w)"
| "exec (Rbd_aio_writev img iov iovcnt off c) w = ret_int (rbd_aio_writev img iov iovcnt off c w)"
| "exec (Rbd_aio_discard img off len c) w = ret_int (rbd_aio_discard img off len c w)"
| "exec (Rbd_aio_flush img c) w = ret_int (rbd_aio_flush img c w)"
| "exec (Rbd_aio_write_zeroes img off len c zero_flags op_flags) w =
     ret_int (rbd_aio_write_zeroes img off len c zero_flags op_flags w)"
| "exec (Rbd_aio_get_return_value c) w = ret_ssize (rbd_aio_get_return_value c w)"
| "exec (Rbd_invalidate_cache img) w = ret_int (rbd_invalidate_cache img w)"
| "exec (Rbd_snap_create img snap_name) w = ret_int (rbd_snap_create img snap_name w)"
| "exec (Rbd_snap_remove img snap_name) w = ret_int (rbd_snap_remove img snap_name w)"
| "exec (Rbd_snap_rollback img snap_name) w = ret_int (rbd_snap_rollback img snap_name w)"
| "exec (Rbd_snap_list img snaps max_snaps) w = ret_int (rbd_snap_list img snaps max_snaps w)"
| "exec (Rbd_snap_list_end snaps) w = (RVoid, rbd_snap_list_end snaps w)"

fun run :: "call list \<Rightarrow> world \<Rightarrow> retval list \<times> world" where
  "run [] w = ([], w)"
| "run (c # cs) w =
     (case exec c w of (r, w') \<Rightarrow> (case run cs w' of (rs, w'') \<Rightarrow> (r # rs, w'')))"

text \<open>The value a caller reads from a result, as a signed integer.\<close>

fun abi_value :: "retval \<Rightarrow> int option" where
  "abi_value (RInt r) = Some (sint r)"
| "abi_value (RSsize r) = Some (sint r)"
| "abi_value RVoid = None"

fun returns_void :: "call \<Rightarrow> bool" where
  "returns_void (Rbd_aio_release c) = True"
| "returns_void (Rbd_snap_list_end snaps) = True"
| "returns_void c = False"

text \<open>What the trace line of each function is: the expansion of its \<^verbatim>\<open>printf\<close>.\<close>

fun func :: "call \<Rightarrow> string" where
  "func (Rbd_open p name img snap_name) = ''rbd_open''"
| "func (Rbd_close img) = ''rbd_close''"
| "func (Rbd_stat img info infosize) = ''rbd_stat''"
| "func (Rbd_resize img sz) = ''rbd_resize''"
| "func (Rbd_get_size img sz) = ''rbd_get_size''"
| "func (Rbd_create p name sz ord_p) = ''rbd_create''"
| "func (Rbd_remove p name) = ''rbd_remove''"
| "func (Rbd_aio_release c) = ''rbd_aio_release''"
| "func (Rbd_aio_create_completion cb_arg complete_cb c) = ''rbd_aio_create_completion''"
| "func (Rbd_aio_readv img iov iovcnt off c) = ''rbd_aio_readv''"
| "func (Rbd_aio_writev img iov iovcnt off c) = ''rbd_aio_writev''"
| "func (Rbd_aio_discard img off len c) = ''rbd_aio_discard''"
| "func (Rbd_aio_flush img c) = ''rbd_aio_flush''"
| "func (Rbd_aio_write_zeroes img off len c zero_flags op_flags) = ''rbd_aio_write_zeroes''"
| "func (Rbd_aio_get_return_value c) = ''rbd_aio_get_return_value''"
| "func (Rbd_invalidate_cache img) = ''rbd_invalidate_cache''"
| "func (Rbd_snap_create img snap_name) = ''rbd_snap_create''"
| "func (Rbd_snap_remove img snap_name) = ''rbd_snap_remove''"
| "func (Rbd_snap_rollback img snap_name) = ''rbd_snap_rollback''"
| "func (Rbd_snap_list img snaps max_snaps) = ''rbd_snap_list''"
| "func (Rbd_snap_list_end snaps) = ''rbd_snap_list_end''"

fun trace_line :: "call \<Rightarrow> string" where
  "trace_line (Rbd_open p name img snap_name) =
     ''librbd NULL implementation: in rbd_open  '' @ [CHR 0x0A]"
| "trace_line (Rbd_aio_release c) = []"
| "trace_line c = ''librbd NULL implementation: in '' @ func c @ [CHR 0x0A]"

section \<open>The C++ methods that take a length and a buffer\<close>














section \<open>A concrete caller\<close>

text \<open>
  A process that has just loaded the library: nothing printed, nothing allocated, no
  request sent, no callback invoked. The caller owns a 4-byte source buffer at
  \<open>0x1000\<close> holding 1, 2, 3, 4, a 4-byte result buffer at \<open>0x2000\<close> holding zeros, an
  \<^verbatim>\<open>rbd_image_t\<close> variable at \<open>0x3000\<close> and an \<^verbatim>\<open>rbd_completion_t\<close> variable at
  \<open>0x3008\<close>, both null, a \<^verbatim>\<open>uint64_t\<close> at \<open>0x3010\<close> holding 7, and the image name \<^verbatim>\<open>"disk0"\<close> at
  \<open>0x4000\<close>. Its completion callback is the function at \<open>0x5000\<close>.
\<close>

definition caller_mem :: "addr \<rightharpoonup> byte" where
  "caller_mem =
     [0x1000 \<mapsto> 1, 0x1001 \<mapsto> 2, 0x1002 \<mapsto> 3, 0x1003 \<mapsto> 4,
      0x2000 \<mapsto> 0, 0x2001 \<mapsto> 0, 0x2002 \<mapsto> 0, 0x2003 \<mapsto> 0,
      0x3000 \<mapsto> 0, 0x3001 \<mapsto> 0, 0x3002 \<mapsto> 0, 0x3003 \<mapsto> 0,
      0x3004 \<mapsto> 0, 0x3005 \<mapsto> 0, 0x3006 \<mapsto> 0, 0x3007 \<mapsto> 0,
      0x3008 \<mapsto> 0, 0x3009 \<mapsto> 0, 0x300A \<mapsto> 0, 0x300B \<mapsto> 0,
      0x300C \<mapsto> 0, 0x300D \<mapsto> 0, 0x300E \<mapsto> 0, 0x300F \<mapsto> 0,
      0x3010 \<mapsto> 7, 0x3011 \<mapsto> 0, 0x3012 \<mapsto> 0, 0x3013 \<mapsto> 0,
      0x3014 \<mapsto> 0, 0x3015 \<mapsto> 0, 0x3016 \<mapsto> 0, 0x3017 \<mapsto> 0,
      0x4000 \<mapsto> 0x64, 0x4001 \<mapsto> 0x69, 0x4002 \<mapsto> 0x73, 0x4003 \<mapsto> 0x6B,
      0x4004 \<mapsto> 0x30, 0x4005 \<mapsto> 0]"

definition fresh :: world where
  "fresh = \<lparr>out = [], mem = caller_mem, heap = [],
             store = \<lparr>blocks = (\<lambda>a. 0), request_counter = 0\<rparr>, callbacks = []\<rparr>"

definition src_iov :: "iovec list" where
  "src_iov = [\<lparr>iov_base = 0x1000, iov_len = 4\<rparr>]"

definition dst_iov :: "iovec list" where
  "dst_iov = [\<lparr>iov_base = 0x2000, iov_len = 4\<rparr>]"



section \<open>What a call changes\<close>

lemmas stub_defs =
  rbd_open_def rbd_close_def rbd_stat_def rbd_resize_def rbd_get_size_def rbd_create_def
  rbd_remove_def rbd_aio_release_def rbd_aio_create_completion_def rbd_aio_readv_def
  rbd_aio_writev_def rbd_aio_discard_def rbd_aio_flush_def rbd_aio_write_zeroes_def
  rbd_aio_get_return_value_def rbd_invalidate_cache_def rbd_snap_create_def
  rbd_snap_remove_def rbd_snap_rollback_def rbd_snap_list_def rbd_snap_list_end_def

lemma exec_world: "snd (exec c w) = w\<lparr>out := out w @ trace_line c\<rparr>"
  by (cases c) (simp_all add: stub_defs ret_int_def ret_ssize_def printf_def)

lemma exec_value: "abi_value (fst (exec c w)) = (if returns_void c then None else Some 0)"
  by (cases c) (simp_all add: stub_defs ret_int_def ret_ssize_def)

lemma exec_result: "fst (exec c w) = fst (exec c w')"
  by (cases c) (simp_all add: stub_defs ret_int_def ret_ssize_def)

lemma trace_line_nonempty: "\<not> returns_void c \<Longrightarrow> trace_line c \<noteq> []"
  by (cases c) simp_all

lemma run_world: "snd (run cs w) = w\<lparr>out := out w @ concat (map trace_line cs)\<rparr>"
proof (induction cs arbitrary: w)
  case Nil
  show ?case by simp
next
  case (Cons c cs)
  have "snd (run (c # cs) w) = snd (run cs (snd (exec c w)))"
    by (simp add: split_beta)
  also have "\<dots> = (snd (exec c w))\<lparr>out := out (snd (exec c w)) @ concat (map trace_line cs)\<rparr>"
    by (rule Cons.IH)
  also have "\<dots> = w\<lparr>out := out w @ concat (map trace_line (c # cs))\<rparr>"
    by (simp add: exec_world)
  finally show ?case .
qed

lemma run_values:
  "map abi_value (fst (run cs w)) = map (\<lambda>c. if returns_void c then None else Some 0) cs"
proof (induction cs arbitrary: w)
  case Nil
  show ?case by simp
next
  case (Cons c cs)
  have "fst (run (c # cs) w) = fst (exec c w) # fst (run cs (snd (exec c w)))"
    by (simp add: split_beta)
  then show ?case
    by (simp add: exec_value Cons.IH)
qed

lemma mem_run: "mem (snd (run cs w)) = mem w"
  by (simp add: run_world)

lemma store_run: "store (snd (run cs w)) = store w"
  by (simp add: run_world)

lemma callbacks_run: "callbacks (snd (run cs w)) = callbacks w"
  by (simp add: run_world)

lemma heap_run: "heap (snd (run cs w)) = heap w"
  by (simp add: run_world)

section \<open>The stubs return 0 and only print\<close>

text \<open>
  Claim C2. Every exported function of the shim that returns an \<^verbatim>\<open>int\<close> or an
  \<^verbatim>\<open>ssize_t\<close> returns 0 whatever its arguments, prints its trace line, and changes
  nothing else: the world after the call is the world before it with the trace line
  appended to standard output, so the backing store is untouched.
\<close>

theorem stubs_return_zero:
  assumes "\<not> returns_void c"
  shows "abi_value (fst (exec c w)) = Some 0
    \<and> trace_line c \<noteq> []
    \<and> snd (exec c w) = w\<lparr>out := out w @ trace_line c\<rparr>
    \<and> store (snd (exec c w)) = store w"
  using assms by (simp add: exec_value exec_world trace_line_nonempty)

theorem stubs_return_zero_witness:
  "\<not> returns_void (Rbd_resize 0 4096)
    \<and> abi_value (fst (exec (Rbd_resize 0 4096) fresh)) = Some 0
    \<and> out (snd (exec (Rbd_resize 0 4096) fresh))
        = ''librbd NULL implementation: in rbd_resize'' @ [CHR 0x0A]
    \<and> store (snd (exec (Rbd_resize 0 4096) fresh)) = store fresh"
  using stubs_return_zero [of "Rbd_resize 0 4096" fresh] by (simp add: fresh_def)

section \<open>Out-parameters and buffers are left alone\<close>

text \<open>
  Claim C8. Every call of \<^verbatim>\<open>rbd_aio_readv\<close> returns 0 and leaves the caller's memory as
  it was, so every byte of the buffers the iovec array points to is unchanged: the read
  reports success and delivers no data.
\<close>

theorem rbd_aio_readv_delivers_nothing:
  "fst (rbd_aio_readv img iov iovcnt off c w) = 0
    \<and> mem (snd (rbd_aio_readv img iov iovcnt off c w)) = mem w
    \<and> iov_bytes (mem (snd (rbd_aio_readv img iov iovcnt off c w))) iov = iov_bytes (mem w) iov"
  by (simp add: rbd_aio_readv_def printf_def)

theorem rbd_aio_readv_delivers_nothing_witness:
  "fst (rbd_aio_readv 0 dst_iov 1 0 0 fresh) = 0
    \<and> iov_bytes (mem (snd (rbd_aio_readv 0 dst_iov 1 0 0 fresh))) dst_iov
        = [[Some 0, Some 0, Some 0, Some 0]]"
  using rbd_aio_readv_delivers_nothing [of 0 dst_iov 1 0 0 fresh]
  by (simp add: fresh_def caller_mem_def dst_iov_def iov_bytes_def load_bytes_def upt_rec)

text \<open>
  Claim C9. Every call of \<^verbatim>\<open>rbd_get_size\<close> returns 0 and writes nothing through
  \<^verbatim>\<open>size\<close>: the \<^verbatim>\<open>uint64_t\<close> it points to holds after the call what it held before.
\<close>

theorem rbd_get_size_writes_nothing:
  "fst (rbd_get_size img sz w) = 0
    \<and> mem (snd (rbd_get_size img sz w)) = mem w
    \<and> load_u64 (mem (snd (rbd_get_size img sz w))) sz = load_u64 (mem w) sz"
  by (simp add: rbd_get_size_def printf_def)

theorem rbd_get_size_writes_nothing_witness:
  "fst (rbd_get_size 0 0x3010 fresh) = 0
    \<and> load_u64 (mem (snd (rbd_get_size 0 0x3010 fresh))) 0x3010 = Some 7"
  using rbd_get_size_writes_nothing [of 0 "0x3010" fresh]
  by (simp add: fresh_def caller_mem_def load_u64_def load_bytes_def upt_rec word_rcat_def)

text \<open>
  Claim C10. Every call of \<^verbatim>\<open>rbd_aio_create_completion\<close> returns 0 and writes nothing
  through \<^verbatim>\<open>c\<close>: the caller's \<^verbatim>\<open>rbd_completion_t\<close> holds after the call what it held
  before, and the library has allocated no object.
\<close>

theorem rbd_aio_create_completion_creates_nothing:
  "fst (rbd_aio_create_completion cb_arg complete_cb c w) = 0
    \<and> mem (snd (rbd_aio_create_completion cb_arg complete_cb c w)) = mem w
    \<and> load_u64 (mem (snd (rbd_aio_create_completion cb_arg complete_cb c w))) c
        = load_u64 (mem w) c
    \<and> heap (snd (rbd_aio_create_completion cb_arg complete_cb c w)) = heap w"
  by (simp add: rbd_aio_create_completion_def printf_def)

theorem rbd_aio_create_completion_creates_nothing_witness:
  "fst (rbd_aio_create_completion 0 0x5000 0x3008 fresh) = 0
    \<and> load_u64 (mem (snd (rbd_aio_create_completion 0 0x5000 0x3008 fresh))) 0x3008 = Some 0
    \<and> heap (snd (rbd_aio_create_completion 0 0x5000 0x3008 fresh)) = []"
  using rbd_aio_create_completion_creates_nothing [of 0 "0x5000" "0x3008" fresh]
  by (simp add: fresh_def caller_mem_def load_u64_def load_bytes_def upt_rec word_rcat_def)

section \<open>Length checks\<close>










section \<open>Open\<close>

text \<open>
  Claim C3 at \<^verbatim>\<open>rbd_open\<close>. The function returns 0 for every input, writes nothing through
  \<^verbatim>\<open>image\<close> and asks nothing of the backing store. In a process that has just loaded the
  library, the open of \<^verbatim>\<open>"disk0"\<close> returns 0 and leaves the caller's handle variable
  null, with no request sent: an open that produced no handle returns the value the
  convention reserves for success. The second definition of \<^verbatim>\<open>rbd_open\<close> in the same
  source file returns the \<^verbatim>\<open>r\<close> of \<^verbatim>\<open>ictx->state->open(0)\<close> and stores the handle only
  when \<^verbatim>\<open>r >= 0\<close>.
\<close>

theorem rbd_open_returns_zero_without_handle:
  "fst (rbd_open p name img snap_name w) = 0
    \<and> mem (snd (rbd_open p name img snap_name w)) = mem w
    \<and> store (snd (rbd_open p name img snap_name w)) = store w
    \<and> fst (rbd_open 0 0x4000 0x3000 0 fresh) = 0
    \<and> load_u64 (mem (snd (rbd_open 0 0x4000 0x3000 0 fresh))) 0x3000 = Some 0
    \<and> request_counter (store (snd (rbd_open 0 0x4000 0x3000 0 fresh))) = 0"
  by (simp add: rbd_open_def printf_def fresh_def caller_mem_def load_u64_def load_bytes_def
      upt_rec word_rcat_def)

section \<open>Close\<close>


end
